theory Spec2Isabelle
  imports Complex_Main
begin

section \<open>Numeric elements\<close>

text \<open>
  The arrays of \<^verbatim>\<open>ComplexTrace.py\<close> hold IEEE floating-point numbers. An element is
  modelled as a finite real, one of the two infinities, or NaN. Finite arithmetic is
  exact (rounding, overflow and the sign of zero are not modelled); the special values
  follow IEEE 754 as numpy implements it: every ordered comparison with NaN is false,
  \<^verbatim>\<open>0/0\<close> is NaN, a non-zero finite number divided by zero is an infinity.
\<close>

datatype fl = Fin real | PInf | NInf | NaN

datatype error = IndexError | ValueError | ZeroDivisionError

type_synonym 'a vol = "'a list list list"

fun isnan :: "fl \<Rightarrow> bool" where
  "isnan NaN = True"
| "isnan _ = False"

text \<open>\<^verbatim>\<open>a <= b\<close> and \<^verbatim>\<open>a < b\<close> on floats.\<close>

fun fl_le :: "fl \<Rightarrow> fl \<Rightarrow> bool" where
  "fl_le NaN _ = False"
| "fl_le _ NaN = False"
| "fl_le NInf _ = True"
| "fl_le _ PInf = True"
| "fl_le PInf _ = False"
| "fl_le _ NInf = False"
| "fl_le (Fin a) (Fin b) = (a \<le> b)"

fun fl_lt :: "fl \<Rightarrow> fl \<Rightarrow> bool" where
  "fl_lt NaN _ = False"
| "fl_lt _ NaN = False"
| "fl_lt PInf _ = False"
| "fl_lt _ NInf = False"
| "fl_lt NInf _ = True"
| "fl_lt _ PInf = True"
| "fl_lt (Fin a) (Fin b) = (a < b)"

text \<open>\<^verbatim>\<open>xp.sign\<close>: \<open>-1\<close>, \<open>0\<close> or \<open>1\<close>, and NaN for NaN.\<close>

fun fl_sign :: "fl \<Rightarrow> fl" where
  "fl_sign NaN = NaN"
| "fl_sign PInf = Fin 1"
| "fl_sign NInf = Fin (- 1)"
| "fl_sign (Fin a) = Fin (sgn a)"

text \<open>\<^verbatim>\<open>a * b\<close>: NaN propagates, and zero times an infinity is NaN.\<close>

fun fl_mul :: "fl \<Rightarrow> fl \<Rightarrow> fl" where
  "fl_mul NaN _ = NaN"
| "fl_mul _ NaN = NaN"
| "fl_mul (Fin a) (Fin b) = Fin (a * b)"
| "fl_mul (Fin a) PInf = (if a = 0 then NaN else if 0 < a then PInf else NInf)"
| "fl_mul (Fin a) NInf = (if a = 0 then NaN else if 0 < a then NInf else PInf)"
| "fl_mul PInf (Fin b) = (if b = 0 then NaN else if 0 < b then PInf else NInf)"
| "fl_mul NInf (Fin b) = (if b = 0 then NaN else if 0 < b then NInf else PInf)"
| "fl_mul PInf PInf = PInf"
| "fl_mul PInf NInf = NInf"
| "fl_mul NInf PInf = NInf"
| "fl_mul NInf NInf = PInf"

text \<open>
  \<^verbatim>\<open>a / b\<close> on arrays (no exception is raised): \<^verbatim>\<open>0/0\<close> and
  \<^verbatim>\<open>inf/inf\<close> are NaN, \<^verbatim>\<open>x/0\<close> is an infinity with the sign of \<open>x\<close>
  (the zero is taken as positive, as the zeros of an absolute value are), a finite number
  divided by an infinity is zero.
\<close>

fun fl_div :: "fl \<Rightarrow> fl \<Rightarrow> fl" where
  "fl_div NaN _ = NaN"
| "fl_div _ NaN = NaN"
| "fl_div (Fin a) (Fin b) =
     (if b = 0 then (if a = 0 then NaN else if 0 < a then PInf else NInf)
      else Fin (a / b))"
| "fl_div (Fin a) PInf = Fin 0"
| "fl_div (Fin a) NInf = Fin 0"
| "fl_div PInf (Fin b) = (if 0 \<le> b then PInf else NInf)"
| "fl_div NInf (Fin b) = (if 0 \<le> b then NInf else PInf)"
| "fl_div PInf PInf = NaN"
| "fl_div PInf NInf = NaN"
| "fl_div NInf PInf = NaN"
| "fl_div NInf NInf = NaN"

text \<open>\<^verbatim>\<open>abs\<close> of a real element.\<close>

fun fl_abs :: "fl \<Rightarrow> fl" where
  "fl_abs NaN = NaN"
| "fl_abs PInf = PInf"
| "fl_abs NInf = PInf"
| "fl_abs (Fin a) = Fin \<bar>a\<bar>"

text \<open>
  \<^verbatim>\<open>clip(x, lo, hi)\<close>, that is \<^verbatim>\<open>minimum(maximum(x, lo), hi)\<close>, both of which
  propagate NaN.
\<close>

definition fl_clip :: "fl \<Rightarrow> fl \<Rightarrow> fl \<Rightarrow> fl" where
  "fl_clip x lo hi =
     (if isnan x then NaN else if fl_lt x lo then lo else if fl_lt hi x then hi else x)"

text \<open>
  The order in which numpy sorts and maximises floats: the IEEE order on the numbers, with
  NaN above everything (\<^verbatim>\<open>max\<close> and \<^verbatim>\<open>argmax\<close> treat a NaN as maximal).
\<close>

definition np_le :: "fl \<Rightarrow> fl \<Rightarrow> bool" where
  "np_le a b \<longleftrightarrow> isnan b \<or> (\<not> isnan a \<and> fl_le a b)"

section \<open>The numpy primitives of the peak-pick closures\<close>

text \<open>\<^verbatim>\<open>xp.unique(t)\<close>: the distinct values of \<open>t\<close> in increasing order.\<close>

definition unique :: "nat list \<Rightarrow> nat list" where
  "unique t = sort (remdups t)"

text \<open>\<^verbatim>\<open>xp.where(t == ii)[0]\<close>: the indices of \<open>t\<close> that hold \<open>ii\<close>, increasing.\<close>

definition where_eq :: "nat list \<Rightarrow> nat \<Rightarrow> nat list" where
  "where_eq t ii = filter (\<lambda>k. t ! k = ii) [0..<length t]"

text \<open>
  \<^verbatim>\<open>x.argmax()\<close> on a one-dimensional float array: numpy's loop keeps the current
  maximum \<open>mp\<close> and its index, replaces them when \<^verbatim>\<open>!(x[i] <= mp)\<close>, and stops at
  the first NaN. An empty array raises \<^verbatim>\<open>ValueError\<close>.
\<close>

fun argmax_from :: "fl \<Rightarrow> nat \<Rightarrow> nat \<Rightarrow> fl list \<Rightarrow> nat" where
  "argmax_from mp mi pos [] = mi"
| "argmax_from mp mi pos (x # xs) =
     (if isnan mp then mi
      else if \<not> fl_le x mp then argmax_from x pos (Suc pos) xs
      else argmax_from mp mi (Suc pos) xs)"

definition argmax :: "fl list \<Rightarrow> error + nat" where
  "argmax xs = (case xs of [] \<Rightarrow> Inl ValueError | x # r \<Rightarrow> Inr (argmax_from x 0 1 r))"

text \<open>\<^verbatim>\<open>c[i, j, :]\<close>, \<^verbatim>\<open>c[i, j, k]\<close>, \<^verbatim>\<open>t[idx]\<close> and \<^verbatim>\<open>t[idx] = v\<close>
  with an index array \<open>idx\<close>; an index out of range raises \<^verbatim>\<open>IndexError\<close>
  (the indices of this program are never negative).\<close>

definition get_trace :: "'a vol \<Rightarrow> nat \<Rightarrow> nat \<Rightarrow> error + 'a list" where
  "get_trace c i j =
     (if i < length c \<and> j < length (c ! i) then Inr (c ! i ! j) else Inl IndexError)"

definition get_item :: "'a vol \<Rightarrow> nat \<Rightarrow> nat \<Rightarrow> nat \<Rightarrow> error + 'a" where
  "get_item c i j k =
     (if i < length c \<and> j < length (c ! i) \<and> k < length (c ! i ! j)
      then Inr (c ! i ! j ! k) else Inl IndexError)"

definition take_idx :: "'a list \<Rightarrow> nat list \<Rightarrow> error + 'a list" where
  "take_idx t idx =
     (if \<forall>k \<in> set idx. k < length t then Inr (map (\<lambda>k. t ! k) idx) else Inl IndexError)"

definition put_idx :: "'a list \<Rightarrow> nat list \<Rightarrow> 'a \<Rightarrow> error + 'a list" where
  "put_idx t idx v =
     (if \<forall>k \<in> set idx. k < length t then Inr (foldl (\<lambda>acc k. acc[k := v]) t idx)
      else Inl IndexError)"

text \<open>A loop whose body may raise: the first error ends it.\<close>

fun collect :: "(error + 'a) list \<Rightarrow> error + 'a list" where
  "collect [] = Inr []"
| "collect (r # rs) =
     (case r of Inl e \<Rightarrow> Inl e
      | Inr v \<Rightarrow> (case collect rs of Inl e \<Rightarrow> Inl e | Inr vs \<Rightarrow> Inr (v # vs)))"


section \<open>The block-local peak-pick closures\<close>

text \<open>
  Each of \<^verbatim>\<open>response_phase\<close>, \<^verbatim>\<open>response_frequency\<close>,
  \<^verbatim>\<open>response_amplitude\<close> and \<^verbatim>\<open>apparent_polarity\<close> defines its own closure
  \<^verbatim>\<open>operation(chunk1, chunk2, chunk3)\<close>, which the array runtime calls on one block of the
  reference (the envelope), of the companion and of the segment ids. A block is a
  three-dimensional array, here a list of lists of traces; the segment ids are the running
  count of local minima, natural numbers. The closure starts from
  \<^verbatim>\<open>out = zeros(chunk1.shape)\<close> and visits the positions \<open>(i, j)\<close> of
  \<^verbatim>\<open>ndindex(out.shape[:-1])\<close> in order.
\<close>

subsection \<open>\<^verbatim>\<open>response_phase.operation\<close>\<close>

text \<open>
  Lines 518 to 530. \<open>response_phase_segments\<close> is the loop \<^verbatim>\<open>for ii in ints\<close> on the trace
  \<open>(i, j)\<close>; its state is the row \<^verbatim>\<open>out[i, j, :]\<close>.
\<close>

fun response_phase_segments ::
  "fl vol \<Rightarrow> fl vol \<Rightarrow> nat list \<Rightarrow> nat \<Rightarrow> nat \<Rightarrow> nat list \<Rightarrow> fl list \<Rightarrow> error + fl list" where
  "response_phase_segments chunk1 chunk2 t3 i j [] out = Inr out"
| "response_phase_segments chunk1 chunk2 t3 i j (ii # ints) out =
     (let idx = where_eq t3 ii in
      case take_idx (chunk1 ! i ! j) idx of Inl e \<Rightarrow> Inl e
      | Inr seg \<Rightarrow>
     (case argmax seg of Inl e \<Rightarrow> Inl e
      | Inr m \<Rightarrow>
     (let peak = idx ! m in
      case get_item chunk2 i j peak of Inl e \<Rightarrow> Inl e
      | Inr v \<Rightarrow>
     (case put_idx out idx v of Inl e \<Rightarrow> Inl e
      | Inr out' \<Rightarrow> response_phase_segments chunk1 chunk2 t3 i j ints out'))))"

definition response_phase_trace ::
  "fl vol \<Rightarrow> fl vol \<Rightarrow> nat vol \<Rightarrow> nat \<Rightarrow> nat \<Rightarrow> error + fl list" where
  "response_phase_trace chunk1 chunk2 chunk3 i j =
     (case get_trace chunk3 i j of Inl e \<Rightarrow> Inl e
      | Inr t3 \<Rightarrow>
          response_phase_segments chunk1 chunk2 t3 i j (unique t3)
            (replicate (length (chunk1 ! i ! j)) (Fin 0)))"

definition response_phase_operation :: "fl vol \<Rightarrow> fl vol \<Rightarrow> nat vol \<Rightarrow> error + fl vol" where
  "response_phase_operation chunk1 chunk2 chunk3 =
     collect (map (\<lambda>i. collect (map (\<lambda>j. response_phase_trace chunk1 chunk2 chunk3 i j)
                                      [0..<length (chunk1 ! i)]))
                  [0..<length chunk1])"

subsection \<open>\<^verbatim>\<open>response_frequency.operation\<close>\<close>

text \<open>
  Lines 567 to 579. \<open>response_frequency_segments\<close> is the loop \<^verbatim>\<open>for ii in ints\<close> on the trace
  \<open>(i, j)\<close>; its state is the row \<^verbatim>\<open>out[i, j, :]\<close>.
\<close>

fun response_frequency_segments ::
  "fl vol \<Rightarrow> fl vol \<Rightarrow> nat list \<Rightarrow> nat \<Rightarrow> nat \<Rightarrow> nat list \<Rightarrow> fl list \<Rightarrow> error + fl list" where
  "response_frequency_segments chunk1 chunk2 t3 i j [] out = Inr out"
| "response_frequency_segments chunk1 chunk2 t3 i j (ii # ints) out =
     (let idx = where_eq t3 ii in
      case take_idx (chunk1 ! i ! j) idx of Inl e \<Rightarrow> Inl e
      | Inr seg \<Rightarrow>
     (case argmax seg of Inl e \<Rightarrow> Inl e
      | Inr m \<Rightarrow>
     (let peak = idx ! m in
      case get_item chunk2 i j peak of Inl e \<Rightarrow> Inl e
      | Inr v \<Rightarrow>
     (case put_idx out idx v of Inl e \<Rightarrow> Inl e
      | Inr out' \<Rightarrow> response_frequency_segments chunk1 chunk2 t3 i j ints out'))))"

definition response_frequency_trace ::
  "fl vol \<Rightarrow> fl vol \<Rightarrow> nat vol \<Rightarrow> nat \<Rightarrow> nat \<Rightarrow> error + fl list" where
  "response_frequency_trace chunk1 chunk2 chunk3 i j =
     (case get_trace chunk3 i j of Inl e \<Rightarrow> Inl e
      | Inr t3 \<Rightarrow>
          response_frequency_segments chunk1 chunk2 t3 i j (unique t3)
            (replicate (length (chunk1 ! i ! j)) (Fin 0)))"

definition response_frequency_operation :: "fl vol \<Rightarrow> fl vol \<Rightarrow> nat vol \<Rightarrow> error + fl vol" where
  "response_frequency_operation chunk1 chunk2 chunk3 =
     collect (map (\<lambda>i. collect (map (\<lambda>j. response_frequency_trace chunk1 chunk2 chunk3 i j)
                                      [0..<length (chunk1 ! i)]))
                  [0..<length chunk1])"

subsection \<open>\<^verbatim>\<open>response_amplitude.operation\<close>\<close>

text \<open>
  Lines 615 to 627. \<open>response_amplitude_segments\<close> is the loop \<^verbatim>\<open>for ii in ints\<close> on the trace
  \<open>(i, j)\<close>; its state is the row \<^verbatim>\<open>out[i, j, :]\<close>.
\<close>

fun response_amplitude_segments ::
  "fl vol \<Rightarrow> fl vol \<Rightarrow> nat list \<Rightarrow> nat \<Rightarrow> nat \<Rightarrow> nat list \<Rightarrow> fl list \<Rightarrow> error + fl list" where
  "response_amplitude_segments chunk1 chunk2 t3 i j [] out = Inr out"
| "response_amplitude_segments chunk1 chunk2 t3 i j (ii # ints) out =
     (let idx = where_eq t3 ii in
      case take_idx (chunk1 ! i ! j) idx of Inl e \<Rightarrow> Inl e
      | Inr seg \<Rightarrow>
     (case argmax seg of Inl e \<Rightarrow> Inl e
      | Inr m \<Rightarrow>
     (let peak = idx ! m in
      case get_item chunk2 i j peak of Inl e \<Rightarrow> Inl e
      | Inr v \<Rightarrow>
     (case put_idx out idx v of Inl e \<Rightarrow> Inl e
      | Inr out' \<Rightarrow> response_amplitude_segments chunk1 chunk2 t3 i j ints out'))))"

definition response_amplitude_trace ::
  "fl vol \<Rightarrow> fl vol \<Rightarrow> nat vol \<Rightarrow> nat \<Rightarrow> nat \<Rightarrow> error + fl list" where
  "response_amplitude_trace chunk1 chunk2 chunk3 i j =
     (case get_trace chunk3 i j of Inl e \<Rightarrow> Inl e
      | Inr t3 \<Rightarrow>
          response_amplitude_segments chunk1 chunk2 t3 i j (unique t3)
            (replicate (length (chunk1 ! i ! j)) (Fin 0)))"

definition response_amplitude_operation :: "fl vol \<Rightarrow> fl vol \<Rightarrow> nat vol \<Rightarrow> error + fl vol" where
  "response_amplitude_operation chunk1 chunk2 chunk3 =
     collect (map (\<lambda>i. collect (map (\<lambda>j. response_amplitude_trace chunk1 chunk2 chunk3 i j)
                                      [0..<length (chunk1 ! i)]))
                  [0..<length chunk1])"

subsection \<open>\<^verbatim>\<open>apparent_polarity.operation\<close>\<close>

text \<open>
  Lines 662 to 675. \<open>apparent_polarity_segments\<close> is the loop \<^verbatim>\<open>for ii in ints\<close> on the trace
  \<open>(i, j)\<close>; its state is the row \<^verbatim>\<open>out[i, j, :]\<close>.
  The value written is \<^verbatim>\<open>chunk1[i, j, peak] * xp.sign(chunk2[i, j, peak])\<close>.
\<close>

fun apparent_polarity_segments ::
  "fl vol \<Rightarrow> fl vol \<Rightarrow> nat list \<Rightarrow> nat \<Rightarrow> nat \<Rightarrow> nat list \<Rightarrow> fl list \<Rightarrow> error + fl list" where
  "apparent_polarity_segments chunk1 chunk2 t3 i j [] out = Inr out"
| "apparent_polarity_segments chunk1 chunk2 t3 i j (ii # ints) out =
     (let idx = where_eq t3 ii in
      case take_idx (chunk1 ! i ! j) idx of Inl e \<Rightarrow> Inl e
      | Inr seg \<Rightarrow>
     (case argmax seg of Inl e \<Rightarrow> Inl e
      | Inr m \<Rightarrow>
     (let peak = idx ! m in
      case (case get_item chunk1 i j peak of Inl e \<Rightarrow> Inl e
            | Inr r \<Rightarrow> (case get_item chunk2 i j peak of Inl e \<Rightarrow> Inl e
                       | Inr c \<Rightarrow> Inr (fl_mul r (fl_sign c)))) of Inl e \<Rightarrow> Inl e
      | Inr v \<Rightarrow>
     (case put_idx out idx v of Inl e \<Rightarrow> Inl e
      | Inr out' \<Rightarrow> apparent_polarity_segments chunk1 chunk2 t3 i j ints out'))))"

definition apparent_polarity_trace ::
  "fl vol \<Rightarrow> fl vol \<Rightarrow> nat vol \<Rightarrow> nat \<Rightarrow> nat \<Rightarrow> error + fl list" where
  "apparent_polarity_trace chunk1 chunk2 chunk3 i j =
     (case get_trace chunk3 i j of Inl e \<Rightarrow> Inl e
      | Inr t3 \<Rightarrow>
          apparent_polarity_segments chunk1 chunk2 t3 i j (unique t3)
            (replicate (length (chunk1 ! i ! j)) (Fin 0)))"

definition apparent_polarity_operation :: "fl vol \<Rightarrow> fl vol \<Rightarrow> nat vol \<Rightarrow> error + fl vol" where
  "apparent_polarity_operation chunk1 chunk2 chunk3 =
     collect (map (\<lambda>i. collect (map (\<lambda>j. apparent_polarity_trace chunk1 chunk2 chunk3 i j)
                                      [0..<length (chunk1 ! i)]))
                  [0..<length chunk1])"


section \<open>Chunked arrays\<close>

text \<open>
  The array runtime (dask) is outside the repository. What the attribute functions need
  of it is modelled here: an array is its chunk structure, the tuple \<^verbatim>\<open>x.chunks\<close> of
  block sizes along the three axes, together with the values it computes to. Its logical
  shape is the sum of the block sizes along each axis. An input that is not yet a chunked
  array is a plain array with the item size of its dtype.
\<close>

type_synonym 'a axes = "'a \<times> 'a \<times> 'a"

record 'a darr =
  chunks :: "nat list axes"
  vals :: "'a vol"

datatype 'a array = NumpyArray nat "'a vol" | DaskArray "'a darr"

datatype preview = Inline | Xline | Z

type_synonym cfl = "fl \<times> fl"

definition axes_map :: "('a \<Rightarrow> 'b) \<Rightarrow> 'a axes \<Rightarrow> 'b axes" where
  "axes_map f a = (case a of (a0, a1, a2) \<Rightarrow> (f a0, f a1, f a2))"

definition shape :: "'a darr \<Rightarrow> nat axes" where
  "shape x = axes_map sum_list (chunks x)"

text \<open>\<^verbatim>\<open>v.shape\<close> of a plain array (an axis behind an empty one counts as empty).\<close>

definition np_shape :: "'a vol \<Rightarrow> nat axes" where
  "np_shape v =
     (length v,
      (case v of [] \<Rightarrow> 0 | p # _ \<Rightarrow> length p),
      (case v of [] \<Rightarrow> 0 | p # _ \<Rightarrow> (case p of [] \<Rightarrow> 0 | t # _ \<Rightarrow> length t)))"

subsection \<open>The runtime's operations\<close>

text \<open>
  \<^verbatim>\<open>da.from_array(v, chunks=csize)\<close> with one block size per axis: full blocks, then the
  remainder; an empty axis is one empty block; a block size of zero divides by zero.
\<close>

definition blockdims :: "nat \<Rightarrow> nat \<Rightarrow> error + nat list" where
  "blockdims d bd =
     (if d = 0 then Inr [0]
      else if bd = 0 then Inl ZeroDivisionError
      else Inr (replicate (d div bd) bd @ (if d mod bd = 0 then [] else [d mod bd])))"

definition from_array :: "'a vol \<Rightarrow> nat axes \<Rightarrow> error + 'a darr" where
  "from_array v csize =
     (case np_shape v of (d0, d1, d2) \<Rightarrow> (case csize of (s0, s1, s2) \<Rightarrow>
       (case blockdims d0 s0 of Inl e \<Rightarrow> Inl e | Inr c0 \<Rightarrow>
       (case blockdims d1 s1 of Inl e \<Rightarrow> Inl e | Inr c1 \<Rightarrow>
       (case blockdims d2 s2 of Inl e \<Rightarrow> Inl e | Inr c2 \<Rightarrow>
          Inr \<lparr>chunks = (c0, c1, c2), vals = v\<rparr>)))))"

text \<open>Cutting one axis into its blocks.\<close>

fun split_by :: "nat list \<Rightarrow> 'a list \<Rightarrow> 'a list list" where
  "split_by [] xs = []"
| "split_by (c # cs) xs = take c xs # split_by cs (drop c xs)"

text \<open>
  \<^verbatim>\<open>da.overlap.overlap(x, depth, boundary='reflect')\<close> along one axis: the axis is
  extended at both ends by the mirror image of its first and last \<open>d\<close> samples, and the
  block that covered \<open>c\<close> samples now covers those and \<open>d\<close> more on either side. Every
  block grows by \<open>2 * d\<close>. A depth larger than a block is refused.
\<close>

fun windows :: "nat \<Rightarrow> nat list \<Rightarrow> 'a list \<Rightarrow> 'a list" where
  "windows d [] p = []"
| "windows d (c # cs) p = take (c + 2 * d) p @ windows d cs (drop c p)"

definition overlap_axis :: "nat \<Rightarrow> nat list \<Rightarrow> 'a list \<Rightarrow> 'a list" where
  "overlap_axis d cs xs = windows d cs (rev (take d xs) @ xs @ rev (drop (length xs - d) xs))"

definition grow :: "nat list \<Rightarrow> nat \<Rightarrow> nat list" where
  "grow cs d = map (\<lambda>c. c + 2 * d) cs"

definition fits :: "nat \<Rightarrow> nat list \<Rightarrow> bool" where
  "fits d cs \<longleftrightarrow> (\<forall>c \<in> set cs. d \<le> c)"

definition overlap :: "'a darr \<Rightarrow> nat axes \<Rightarrow> error + 'a darr" where
  "overlap x depth =
     (case chunks x of (c0, c1, c2) \<Rightarrow> (case depth of (d0, d1, d2) \<Rightarrow>
        if fits d0 c0 \<and> fits d1 c1 \<and> fits d2 c2
        then Inr \<lparr>chunks = (grow c0 d0, grow c1 d1, grow c2 d2),
                  vals = overlap_axis d0 c0
                           (map (overlap_axis d1 c1) (map (map (overlap_axis d2 c2)) (vals x)))\<rparr>
        else Inl ValueError))"

text \<open>
  Modelled from the spec: \<^verbatim>\<open>util.trim_dask_array(x, kernel)\<close>, which is not among the
  sources. It removes exactly \<^verbatim>\<open>kernel[axis] // 2\<close> samples from each side of every block
  along every axis.
\<close>

definition trim_axis :: "nat \<Rightarrow> nat list \<Rightarrow> 'a list \<Rightarrow> 'a list" where
  "trim_axis d cs xs = concat (map (\<lambda>b. take (length b - 2 * d) (drop d b)) (split_by cs xs))"

definition shrink :: "nat list \<Rightarrow> nat \<Rightarrow> nat list" where
  "shrink cs d = map (\<lambda>c. c - 2 * d) cs"

definition half_window :: "nat axes \<Rightarrow> nat axes" where
  "half_window kern = axes_map (\<lambda>k. k div 2) kern"

definition trim_dask_array :: "'a darr \<Rightarrow> nat axes \<Rightarrow> 'a darr" where
  "trim_dask_array x kern =
     (case chunks x of (c0, c1, c2) \<Rightarrow> (case half_window kern of (d0, d1, d2) \<Rightarrow>
        \<lparr>chunks = (shrink c0 d0, shrink c1 d1, shrink c2 d2),
         vals = trim_axis d0 c0 (map (trim_axis d1 c1) (map (map (trim_axis d2 c2)) (vals x)))\<rparr>))"

text \<open>
  The grid of blocks of an array, and the array that a grid of blocks computes to.
\<close>

definition blocks :: "nat list axes \<Rightarrow> 'a vol \<Rightarrow> 'a vol list list list" where
  "blocks cs v =
     (case cs of (c0, c1, c2) \<Rightarrow>
        map (\<lambda>slab.
               map (\<lambda>bar. map (\<lambda>k. map (map (\<lambda>t. split_by c2 t ! k)) bar) [0..<length c2])
                   (map (\<lambda>j. map (\<lambda>p. split_by c1 p ! j) slab) [0..<length c1]))
            (split_by c0 v))"

definition cat2 :: "'a vol list \<Rightarrow> 'a vol" where
  "cat2 bs = (case bs of [] \<Rightarrow> [] | b # r \<Rightarrow> foldl (\<lambda>acc x. map2 (map2 (@)) acc x) b r)"

definition cat1 :: "'a vol list \<Rightarrow> 'a vol" where
  "cat1 bs = (case bs of [] \<Rightarrow> [] | b # r \<Rightarrow> foldl (\<lambda>acc x. map2 (@) acc x) b r)"

definition join_blocks :: "'a vol list list list \<Rightarrow> 'a vol" where
  "join_blocks g = concat (map (\<lambda>row. cat1 (map cat2 row)) g)"

text \<open>
  \<^verbatim>\<open>x.map_blocks(f, dtype=...)\<close>: \<open>f\<close> on every block. The result keeps the chunks of
  \<open>x\<close>, since no other chunks are declared.
\<close>

definition map_blocks :: "('a vol \<Rightarrow> 'b vol) \<Rightarrow> 'a darr \<Rightarrow> 'b darr" where
  "map_blocks f x =
     \<lparr>chunks = chunks x, vals = join_blocks (map (map (map f)) (blocks (chunks x) (vals x)))\<rparr>"

text \<open>
  \<^verbatim>\<open>da.map_blocks(f, x, y, z, dtype=...)\<close>: \<open>f\<close> on the blocks of three arrays that
  lie at the same place. The three arrays of each call in this file are meant to come from
  the same chunked volume; the model refuses arrays whose chunks disagree (the runtime
  aligns the blocks of arrays of equal shape only; its re-chunking of equal shapes and its
  broadcasting of axes of length one are not modelled). An error of \<open>f\<close> on a block is
  the error of the computation.
\<close>

definition map_blocks3 ::
  "('a vol \<Rightarrow> 'b vol \<Rightarrow> 'c vol \<Rightarrow> error + 'd vol) \<Rightarrow> 'a darr \<Rightarrow> 'b darr \<Rightarrow> 'c darr \<Rightarrow> error + 'd darr" where
  "map_blocks3 f x y z =
     (if chunks y = chunks x \<and> chunks z = chunks x
      then (case chunks x of (c0, c1, c2) \<Rightarrow>
        (let gx = blocks (chunks x) (vals x); gy = blocks (chunks x) (vals y);
             gz = blocks (chunks x) (vals z)
         in case collect (map (\<lambda>a. collect (map (\<lambda>b. collect (map (\<lambda>c.
                      f (gx ! a ! b ! c) (gy ! a ! b ! c) (gz ! a ! b ! c))
                    [0..<length c2])) [0..<length c1])) [0..<length c0])
            of Inl e \<Rightarrow> Inl e
             | Inr g \<Rightarrow> Inr \<lparr>chunks = chunks x, vals = join_blocks g\<rparr>))
      else Inl ValueError)"

text \<open>Elementwise operations of one array and of two arrays of the same shape. The
  operands of every binary operation of this file are meant to have the shape of the input
  volume; the model refuses operands of different shapes (broadcasting of axes of length one
  is not modelled).\<close>

definition da_map :: "('a \<Rightarrow> 'b) \<Rightarrow> 'a darr \<Rightarrow> 'b darr" where
  "da_map f x = \<lparr>chunks = chunks x, vals = map (map (map f)) (vals x)\<rparr>"

definition da_map2 :: "('a \<Rightarrow> 'b \<Rightarrow> 'c) \<Rightarrow> 'a darr \<Rightarrow> 'b darr \<Rightarrow> error + 'c darr" where
  "da_map2 f x y =
     (if shape x = shape y
      then Inr \<lparr>chunks = chunks x, vals = map2 (map2 (map2 f)) (vals x) (vals y)\<rparr>
      else Inl ValueError)"

text \<open>\<^verbatim>\<open>x.cumsum(axis=-1)\<close> of an array of truth values: the running count along
  each trace, across the blocks.\<close>

fun cumsum_from :: "nat \<Rightarrow> bool list \<Rightarrow> nat list" where
  "cumsum_from acc [] = []"
| "cumsum_from acc (b # bs) = (acc + (if b then 1 else 0)) # cumsum_from (acc + (if b then 1 else 0)) bs"

definition cumsum :: "bool darr \<Rightarrow> nat darr" where
  "cumsum x = \<lparr>chunks = chunks x, vals = map (map (cumsum_from 0)) (vals x)\<rparr>"


section \<open>The attribute functions\<close>

subsection \<open>What the class takes from its surroundings\<close>

text \<open>
  \<^verbatim>\<open>self.hilbert_cb\<close> (the analytic-signal callback, from a real block to a complex
  block), \<^verbatim>\<open>self.xp.unwrap\<close> and the angle of a complex number are supplied by the caller
  or by the numeric backend. \<^verbatim>\<open>util.compute_chunk_size\<close> and
  \<^verbatim>\<open>SignalProcess.first_derivative\<close> are functions of the repository that are not among
  the sources. All five are parameters of the model. The decorators
  \<^verbatim>\<open>util.check_numpy\<close> and \<^verbatim>\<open>util.check_hilbert\<close>, which are not among the sources
  either, are taken to do no more than set \<^verbatim>\<open>self.xp\<close> and \<^verbatim>\<open>self.hilbert_cb\<close>,
  which the backend record holds.
\<close>

record backend =
  hilbert_cb :: "fl vol \<Rightarrow> cfl vol"
  xp_unwrap :: "fl vol \<Rightarrow> fl vol"
  xp_angle :: "cfl \<Rightarrow> fl"
  first_derivative :: "fl darr \<Rightarrow> error + fl darr"
  compute_chunk_size :: "nat axes \<Rightarrow> nat \<Rightarrow> nat axes option \<Rightarrow> preview option \<Rightarrow> nat axes"

text \<open>Sequencing of steps that may raise.\<close>

definition andthen :: "error + 'a \<Rightarrow> ('a \<Rightarrow> error + 'b) \<Rightarrow> error + 'b" where
  "andthen r f = (case r of Inl e \<Rightarrow> Inl e | Inr v \<Rightarrow> f v)"

subsection \<open>Elementwise primitives\<close>

text \<open>\<^verbatim>\<open>da.absolute\<close> of a complex element and \<^verbatim>\<open>da.hypot\<close>: an infinite part
  gives infinity, otherwise NaN propagates.\<close>

fun cabs :: "cfl \<Rightarrow> fl" where
  "cabs (Fin a, Fin b) = Fin (sqrt (a * a + b * b))"
| "cabs (PInf, _) = PInf"
| "cabs (NInf, _) = PInf"
| "cabs (_, PInf) = PInf"
| "cabs (_, NInf) = PInf"
| "cabs (NaN, _) = NaN"
| "cabs (_, NaN) = NaN"

definition rad2deg :: "fl \<Rightarrow> fl" where
  "rad2deg x = fl_mul x (Fin (180 / pi))"

definition deg2rad :: "fl \<Rightarrow> fl" where
  "deg2rad x = fl_mul x (Fin (pi / 180))"

text \<open>\<^verbatim>\<open>da.angle\<close> of a real array is the angle of its elements taken as complex
  numbers with imaginary part zero.\<close>

definition angle_of_real :: "backend \<Rightarrow> fl \<Rightarrow> fl" where
  "angle_of_real B x = xp_angle B (x, Fin 0)"

text \<open>\<^verbatim>\<open>result[da.isnan(result)] = 0\<close>, on one element.\<close>

definition nan_to_zero :: "fl \<Rightarrow> fl" where
  "nan_to_zero x = (if isnan x then Fin 0 else x)"

text \<open>
  Modelled from the spec: \<^verbatim>\<open>util.local_events(chunk, comparator)\<close>, which is not among
  the sources. A sample of a trace is flagged when the comparator holds between it and each
  of its two neighbours (with \<^verbatim>\<open>xp.less\<close>: a strict local minimum); the first and the
  last sample of a trace are never flagged.
\<close>

definition local_events_trace :: "(fl \<Rightarrow> fl \<Rightarrow> bool) \<Rightarrow> fl list \<Rightarrow> bool list" where
  "local_events_trace comparator t =
     map (\<lambda>k. 0 < k \<and> Suc k < length t \<and> comparator (t ! k) (t ! (k - 1)) \<and>
               comparator (t ! k) (t ! Suc k))
         [0..<length t]"

definition local_events :: "(fl \<Rightarrow> fl \<Rightarrow> bool) \<Rightarrow> fl vol \<Rightarrow> bool vol" where
  "local_events comparator chunk = map (map (local_events_trace comparator)) chunk"

subsection \<open>\<^verbatim>\<open>create_array\<close> and the analytic-signal stage\<close>

text \<open>
  Lines 60 to 103. An input that is not a chunked array is chunked by the planner; with a
  kernel the array is ghosted by the half window \<^verbatim>\<open>kernel // 2\<close>. Every call in the file
  leaves \<^verbatim>\<open>boundary\<close> at \<^verbatim>\<open>'reflect'\<close>, the boundary that \<open>overlap\<close> models.
\<close>

definition create_array ::
  "backend \<Rightarrow> fl array \<Rightarrow> nat axes option \<Rightarrow> nat axes option \<Rightarrow> preview option
     \<Rightarrow> error + (fl darr \<times> nat list axes)" where
  "create_array B darray kern hw preview =
     andthen (case darray of
                DaskArray x \<Rightarrow> Inr x
              | NumpyArray itemsize v \<Rightarrow>
                  from_array v (compute_chunk_size B (np_shape v) itemsize kern preview))
       (\<lambda>darray.
          case kern of
            None \<Rightarrow> Inr (darray, chunks darray)
          | Some k \<Rightarrow>
              andthen (overlap darray (case hw of None \<Rightarrow> half_window k | Some h \<Rightarrow> h))
                (\<lambda>darray. Inr (darray, chunks darray)))"

text \<open>Lines 107 to 135.\<close>

definition hilbert :: "backend \<Rightarrow> fl array \<Rightarrow> nat axes \<Rightarrow> preview option \<Rightarrow> error + cfl darr" where
  "hilbert B darray kern preview =
     andthen (create_array B darray (Some kern) None preview)
       (\<lambda>(darray, chunks_init).
          let analytical_trace = map_blocks (hilbert_cb B) darray;
              result = trim_dask_array analytical_trace kern
          in Inr result)"

text \<open>Lines 139 to 168.\<close>

definition envelope :: "backend \<Rightarrow> fl array \<Rightarrow> nat axes \<Rightarrow> preview option \<Rightarrow> error + fl darr" where
  "envelope B darray kern preview =
     andthen (create_array B darray (Some kern) None preview)
       (\<lambda>(darray, chunks_init).
          let analytical_trace = map_blocks (hilbert_cb B) darray;
              result = da_map cabs analytical_trace;
              result = trim_dask_array result kern
          in Inr result)"

text \<open>Lines 171 to 198.\<close>

definition instantaneous_phase ::
  "backend \<Rightarrow> fl array \<Rightarrow> nat axes \<Rightarrow> preview option \<Rightarrow> error + fl darr" where
  "instantaneous_phase B darray kern preview =
     andthen (create_array B darray (Some kern) None preview)
       (\<lambda>(darray, chunks_init).
          let analytical_trace = map_blocks (hilbert_cb B) darray;
              result = da_map rad2deg (da_map (xp_angle B) analytical_trace);
              result = trim_dask_array result kern
          in Inr result)"

subsection \<open>The derived attributes\<close>

text \<open>Lines 201 to 228. The inner call passes no \<^verbatim>\<open>preview\<close>.\<close>

definition cosine_instantaneous_phase ::
  "backend \<Rightarrow> fl array \<Rightarrow> nat axes \<Rightarrow> preview option \<Rightarrow> error + fl darr" where
  "cosine_instantaneous_phase B darray kern preview =
     andthen (create_array B darray None None preview)
       (\<lambda>(darray, chunks_init).
     andthen (instantaneous_phase B (DaskArray darray) kern None)
       (\<lambda>phase.
          let result = da_map rad2deg (da_map (angle_of_real B) phase)
          in Inr result))"

text \<open>Lines 232 to 261.\<close>

definition relative_amplitude_change ::
  "backend \<Rightarrow> fl array \<Rightarrow> nat axes \<Rightarrow> preview option \<Rightarrow> error + fl darr" where
  "relative_amplitude_change B darray kern preview =
     andthen (create_array B darray None None preview)
       (\<lambda>(darray, chunks_init).
     andthen (envelope B (DaskArray darray) kern None)
       (\<lambda>env.
     andthen (first_derivative B env)
       (\<lambda>env_prime.
     andthen (da_map2 fl_div env_prime env)
       (\<lambda>result.
          let result = da_map (\<lambda>x. fl_clip x (Fin (- 1)) (Fin 1)) result
          in Inr result))))"

text \<open>Lines 265 to 292.\<close>

definition amplitude_acceleration ::
  "backend \<Rightarrow> fl array \<Rightarrow> nat axes \<Rightarrow> preview option \<Rightarrow> error + fl darr" where
  "amplitude_acceleration B darray kern preview =
     andthen (create_array B darray None None preview)
       (\<lambda>(darray, chunks_init).
     andthen (relative_amplitude_change B (DaskArray darray) kern None)
       (\<lambda>rac. first_derivative B rac))"

text \<open>
  Lines 295 to 327. The first call of \<^verbatim>\<open>create_array\<close> passes the kernel
  \<^verbatim>\<open>(1,1,25)\<close>, so the array is ghosted before \<^verbatim>\<open>instantaneous_phase\<close> ghosts and
  trims it. \<^verbatim>\<open>1000 / sample_rate\<close> raises for a sample rate of zero.
\<close>

definition instantaneous_frequency ::
  "backend \<Rightarrow> fl array \<Rightarrow> real \<Rightarrow> nat axes \<Rightarrow> preview option \<Rightarrow> error + fl darr" where
  "instantaneous_frequency B darray sample_rate kern preview =
     andthen (create_array B darray (Some (1, 1, 25)) None preview)
       (\<lambda>(darray, chunks_init).
     andthen (if sample_rate = 0 then Inl ZeroDivisionError else Inr (1000 / sample_rate))
       (\<lambda>fs.
     andthen (instantaneous_phase B (DaskArray darray) kern None)
       (\<lambda>phase.
          let phase = da_map deg2rad phase;
              phase = map_blocks (xp_unwrap B) phase
          in
     andthen (first_derivative B phase)
       (\<lambda>phase_prime.
          let result = da_map (\<lambda>x. fl_abs (fl_mul (fl_div x (Fin (2 * pi))) (Fin fs))) phase_prime
          in Inr result))))"

text \<open>Lines 330 to 357.\<close>

definition instantaneous_bandwidth ::
  "backend \<Rightarrow> fl array \<Rightarrow> nat axes \<Rightarrow> preview option \<Rightarrow> error + fl darr" where
  "instantaneous_bandwidth B darray kern preview =
     andthen (create_array B darray None None preview)
       (\<lambda>(darray, chunks_init).
     andthen (relative_amplitude_change B (DaskArray darray) kern None)
       (\<lambda>rac.
          let result = da_map (\<lambda>x. fl_div (fl_abs x) (Fin (2 * pi))) rac
          in Inr result))"

text \<open>Lines 360 to 389.\<close>

definition dominant_frequency ::
  "backend \<Rightarrow> fl array \<Rightarrow> real \<Rightarrow> nat axes \<Rightarrow> preview option \<Rightarrow> error + fl darr" where
  "dominant_frequency B darray sample_rate kern preview =
     andthen (create_array B darray None None preview)
       (\<lambda>(darray, chunks_init).
     andthen (instantaneous_frequency B (DaskArray darray) sample_rate kern None)
       (\<lambda>inst_freq.
     andthen (instantaneous_bandwidth B (DaskArray darray) kern None)
       (\<lambda>inst_band. da_map2 (\<lambda>a b. cabs (a, b)) inst_freq inst_band)))"

text \<open>Lines 392 to 420.\<close>

definition frequency_change ::
  "backend \<Rightarrow> fl array \<Rightarrow> real \<Rightarrow> nat axes \<Rightarrow> preview option \<Rightarrow> error + fl darr" where
  "frequency_change B darray sample_rate kern preview =
     andthen (create_array B darray None None preview)
       (\<lambda>(darray, chunks_init).
     andthen (instantaneous_frequency B (DaskArray darray) sample_rate kern None)
       (\<lambda>inst_freq. first_derivative B inst_freq))"

text \<open>Lines 423 to 458. \<^verbatim>\<open>func\<close> is the closure \<^verbatim>\<open>chunk[chunk < 5] = 5\<close>.\<close>

definition sweetness_func :: "fl vol \<Rightarrow> fl vol" where
  "sweetness_func chunk = map (map (map (\<lambda>x. if fl_lt x (Fin 5) then Fin 5 else x))) chunk"

definition sweetness ::
  "backend \<Rightarrow> fl array \<Rightarrow> real \<Rightarrow> nat axes \<Rightarrow> preview option \<Rightarrow> error + fl darr" where
  "sweetness B darray sample_rate kern preview =
     andthen (create_array B darray None None preview)
       (\<lambda>(darray, chunks_init).
     andthen (instantaneous_frequency B (DaskArray darray) sample_rate kern None)
       (\<lambda>inst_freq.
          let inst_freq = map_blocks sweetness_func inst_freq in
     andthen (envelope B (DaskArray darray) kern None)
       (\<lambda>env. da_map2 fl_div env inst_freq)))"

text \<open>Lines 460 to 492.\<close>

definition quality_factor ::
  "backend \<Rightarrow> fl array \<Rightarrow> real \<Rightarrow> nat axes \<Rightarrow> preview option \<Rightarrow> error + fl darr" where
  "quality_factor B darray sample_rate kern preview =
     andthen (create_array B darray None None preview)
       (\<lambda>(darray, chunks_init).
     andthen (instantaneous_frequency B (DaskArray darray) sample_rate kern None)
       (\<lambda>inst_freq.
     andthen (relative_amplitude_change B (DaskArray darray) kern None)
       (\<lambda>rac. da_map2 fl_div (da_map (\<lambda>x. fl_mul (Fin pi) x) inst_freq) rac)))"

subsection \<open>The segment peak-pick attributes\<close>






section \<open>Notions used in the statements\<close>

text \<open>Two blocks have the same shape; a block covers another when each of its axes is at
  least as long at every position of the other.\<close>

definition same_shape :: "'a vol \<Rightarrow> 'b vol \<Rightarrow> bool" where
  "same_shape a b \<longleftrightarrow> map (map length) a = map (map length) b"

definition covers :: "'a vol \<Rightarrow> 'b vol \<Rightarrow> bool" where
  "covers a b \<longleftrightarrow>
     length a \<le> length b \<and>
     list_all2 (\<lambda>p q. length p \<le> length q \<and>
                  list_all2 (\<lambda>s t. length s \<le> length t) p (take (length p) q))
       a (take (length a) b)"

text \<open>The values of a chunked array have the extents that its chunks add up to.\<close>

definition well_chunked :: "'a darr \<Rightarrow> bool" where
  "well_chunked x \<longleftrightarrow>
     (case chunks x of (c0, c1, c2) \<Rightarrow>
        length (vals x) = sum_list c0 \<and>
        (\<forall>p \<in> set (vals x). length p = sum_list c1 \<and> (\<forall>t \<in> set p. length t = sum_list c2)))"



text \<open>
  The segment loop with the written value left open: the four closures are instances of
  it, which the proofs below use.
\<close>

fun segments_with ::
  "(nat \<Rightarrow> error + fl) \<Rightarrow> fl list \<Rightarrow> nat list \<Rightarrow> nat list \<Rightarrow> fl list \<Rightarrow> error + fl list" where
  "segments_with val t1 t3 [] out = Inr out"
| "segments_with val t1 t3 (ii # ints) out =
     (let idx = where_eq t3 ii in
      case take_idx t1 idx of Inl e \<Rightarrow> Inl e
      | Inr seg \<Rightarrow>
     (case argmax seg of Inl e \<Rightarrow> Inl e
      | Inr m \<Rightarrow>
     (case val (idx ! m) of Inl e \<Rightarrow> Inl e
      | Inr v \<Rightarrow>
     (case put_idx out idx v of Inl e \<Rightarrow> Inl e
      | Inr out' \<Rightarrow> segments_with val t1 t3 ints out'))))"


section \<open>A concrete backend for the examples\<close>

text \<open>
  The examples below run the attribute functions with this backend. The analytic-signal
  callback returns its block with imaginary part zero (the analytic signal of a constant
  trace), \<^verbatim>\<open>unwrap\<close> leaves its block unchanged (as it does for a phase without jumps),
  the planner puts the whole volume in one block, and the angle is the argument of a finite
  complex number, with the limits of \<^verbatim>\<open>arctan2\<close> at the infinities.
\<close>

definition real_analytic :: "fl vol \<Rightarrow> cfl vol" where
  "real_analytic block = map (map (map (\<lambda>x. (x, Fin 0)))) block"

fun np_angle :: "cfl \<Rightarrow> fl" where
  "np_angle (NaN, _) = NaN"
| "np_angle (_, NaN) = NaN"
| "np_angle (Fin a, Fin b) = Fin (Arg (Complex a b))"
| "np_angle (PInf, Fin b) = Fin 0"
| "np_angle (NInf, Fin b) = (if b < 0 then Fin (- pi) else Fin pi)"
| "np_angle (Fin a, PInf) = Fin (pi / 2)"
| "np_angle (Fin a, NInf) = Fin (- pi / 2)"
| "np_angle (PInf, PInf) = Fin (pi / 4)"
| "np_angle (PInf, NInf) = Fin (- pi / 4)"
| "np_angle (NInf, PInf) = Fin (3 * pi / 4)"
| "np_angle (NInf, NInf) = Fin (- 3 * pi / 4)"

fun fl_sub :: "fl \<Rightarrow> fl \<Rightarrow> fl" where
  "fl_sub NaN _ = NaN"
| "fl_sub _ NaN = NaN"
| "fl_sub (Fin a) (Fin b) = Fin (a - b)"
| "fl_sub PInf PInf = NaN"
| "fl_sub NInf NInf = NaN"
| "fl_sub PInf _ = PInf"
| "fl_sub NInf _ = NInf"
| "fl_sub _ PInf = NInf"
| "fl_sub _ NInf = PInf"

text \<open>
  Modelled from the spec: \<^verbatim>\<open>SignalProcess.first_derivative(x, axis=-1)\<close>, which is not
  among the sources. It is the central difference in the interior of a trace and the
  one-sided difference at its two ends, and it keeps the shape. A trace of fewer than two
  samples has no difference to take; its derivative is taken as zero.
\<close>

definition first_derivative_trace :: "fl list \<Rightarrow> fl list" where
  "first_derivative_trace t =
     map (\<lambda>k. if length t < 2 then Fin 0
               else if k = 0 then fl_sub (t ! 1) (t ! 0)
               else if Suc k = length t then fl_sub (t ! k) (t ! (k - 1))
               else fl_div (fl_sub (t ! Suc k) (t ! (k - 1))) (Fin 2))
         [0..<length t]"

definition spec_first_derivative :: "fl darr \<Rightarrow> error + fl darr" where
  "spec_first_derivative x = Inr \<lparr>chunks = chunks x, vals = map (map first_derivative_trace) (vals x)\<rparr>"

definition example_backend :: backend where
  "example_backend =
     \<lparr>hilbert_cb = real_analytic, xp_unwrap = (\<lambda>block. block), xp_angle = np_angle,
      first_derivative = spec_first_derivative,
      compute_chunk_size = (\<lambda>shp itemsize kern preview. shp)\<rparr>"

section \<open>Proofs: the numpy primitives\<close>

lemma set_unique [simp]: "set (unique t) = set t"
  by (simp add: unique_def)

lemma distinct_unique [simp]: "distinct (unique t)"
  by (simp add: unique_def)

lemma sorted_unique: "sorted (unique t)"
  by (simp add: unique_def)







lemma np_le_total: "np_le a b \<or> np_le b a"
  by (cases a; cases b) (auto simp: np_le_def)









section \<open>Proofs: the segment loop\<close>


lemma response_phase_segments_with:
  "response_phase_segments c1 c2 t3 i j ints out =
     segments_with (get_item c2 i j) (c1 ! i ! j) t3 ints out"
  by (induction ints arbitrary: out) (simp_all add: Let_def split: sum.splits)

lemma response_frequency_segments_with:
  "response_frequency_segments c1 c2 t3 i j ints out =
     segments_with (get_item c2 i j) (c1 ! i ! j) t3 ints out"
  by (induction ints arbitrary: out) (simp_all add: Let_def split: sum.splits)

lemma response_amplitude_segments_with:
  "response_amplitude_segments c1 c2 t3 i j ints out =
     segments_with (get_item c2 i j) (c1 ! i ! j) t3 ints out"
  by (induction ints arbitrary: out) (simp_all add: Let_def split: sum.splits)






section \<open>Proofs: shapes and loops that may raise\<close>






lemma collect_map_Inr:
  assumes "collect (map f xs) = Inr ys"
  shows "length ys = length xs \<and> (\<forall>n<length xs. f (xs ! n) = Inr (ys ! n))"
  using assms
proof (induction xs arbitrary: ys)
  case Nil
  then show ?case by simp
next
  case (Cons x xs)
  then obtain y ys' where y: "f x = Inr y" "collect (map f xs) = Inr ys'" "ys = y # ys'"
    by (auto split: sum.splits)
  with Cons.IH [of ys'] show ?case by (auto simp: nth_Cons split: nat.splits)
qed


section \<open>Proofs: from traces to blocks\<close>




section \<open>Proofs: chunks, ghosting and trimming\<close>

lemma split_by_map: "split_by cs (map g xs) = map (map g) (split_by cs xs)"
  by (induction cs arbitrary: xs) (simp_all add: take_map drop_map)

lemma trim_axis_map: "trim_axis d cs (map g xs) = map g (trim_axis d cs xs)"
  by (simp add: trim_axis_def split_by_map map_concat comp_def take_map drop_map)

lemma trim_da_map: "trim_dask_array (da_map f x) kern = da_map f (trim_dask_array x kern)"
proof -
  obtain c0 c1 c2 where c: "chunks x = (c0, c1, c2)" by (cases "chunks x") auto
  obtain d0 d1 d2 where d: "half_window kern = (d0, d1, d2)" by (cases "half_window kern") auto
  have a2: "map (map (trim_axis d2 c2)) (map (map (map f)) v) =
            map (map (map f)) (map (map (trim_axis d2 c2)) v)" for v
    by (simp add: trim_axis_map comp_def)
  have a1: "map (trim_axis d1 c1) (map (map (map f)) v) =
            map (map (map f)) (map (trim_axis d1 c1) v)" for v
    by (simp add: trim_axis_map comp_def)
  have a0: "trim_axis d0 c0 (map (map (map f)) v) = map (map (map f)) (trim_axis d0 c0 v)" for v
    by (rule trim_axis_map)
  have "trim_axis d0 c0 (map (trim_axis d1 c1) (map (map (trim_axis d2 c2)) (map (map (map f)) (vals x)))) =
        map (map (map f)) (trim_axis d0 c0 (map (trim_axis d1 c1) (map (map (trim_axis d2 c2)) (vals x))))"
    by (simp only: a2 a1 a0)
  then show ?thesis by (simp add: trim_dask_array_def da_map_def c d del: map_map)
qed

lemma shrink_grow: "shrink (grow cs d) d = cs"
  by (simp add: shrink_def grow_def comp_def)

lemma grow_zero [simp]: "grow cs 0 = cs"
  by (simp add: grow_def)

lemma sum_list_grow: "sum_list (grow cs d) = sum_list cs + 2 * d * length cs"
  by (induction cs) (simp_all add: grow_def algebra_simps)

lemma chunks_da_map [simp]: "chunks (da_map f x) = chunks x"
  by (simp add: da_map_def)

lemma chunks_map_blocks [simp]: "chunks (map_blocks f x) = chunks x"
  by (simp add: map_blocks_def)

lemma chunks_overlap:
  assumes "overlap x depth = Inr y" "chunks x = (c0, c1, c2)" "depth = (d0, d1, d2)"
  shows "chunks y = (grow c0 d0, grow c1 d1, grow c2 d2)"
  using assms by (auto simp: overlap_def split: if_splits)

lemma chunks_trim:
  assumes "chunks x = (c0, c1, c2)" "half_window kern = (d0, d1, d2)"
  shows "chunks (trim_dask_array x kern) = (shrink c0 d0, shrink c1 d1, shrink c2 d2)"
  using assms by (simp add: trim_dask_array_def)

lemma create_array_dask_kernel:
  assumes "create_array B (DaskArray x) (Some kern) None preview = Inr (y, ci)"
    and "chunks x = (c0, c1, c2)" "half_window kern = (d0, d1, d2)"
  shows "chunks y = (grow c0 d0, grow c1 d1, grow c2 d2)"
proof -
  from assms(1) have "overlap x (half_window kern) = Inr y"
    by (auto simp: create_array_def andthen_def split: sum.splits)
  then show ?thesis using chunks_overlap assms(2,3) by metis
qed

lemma create_array_dask_plain [simp]:
  "create_array B (DaskArray x) None None preview = Inr (x, chunks x)"
  by (simp add: create_array_def andthen_def)

lemma ghost_trim_chunks:
  assumes "create_array B (DaskArray x) (Some kern) None preview = Inr (y, ci)"
    and "chunks z = chunks y"
  shows "chunks (trim_dask_array z kern) = chunks x"
proof -
  obtain c0 c1 c2 where c: "chunks x = (c0, c1, c2)" by (cases "chunks x") auto
  obtain d0 d1 d2 where d: "half_window kern = (d0, d1, d2)" by (cases "half_window kern") auto
  have "chunks z = (grow c0 d0, grow c1 d1, grow c2 d2)"
    using create_array_dask_kernel [OF assms(1) c d] assms(2) by simp
  from chunks_trim [OF this d] show ?thesis by (simp add: shrink_grow c)
qed

lemma envelope_chunks:
  assumes "envelope B (DaskArray x) kern preview = Inr r"
  shows "chunks r = chunks x"
proof -
  from assms obtain y ci where y: "create_array B (DaskArray x) (Some kern) None preview = Inr (y, ci)"
    and r: "r = trim_dask_array (da_map cabs (map_blocks (hilbert_cb B) y)) kern"
    by (auto simp: envelope_def andthen_def Let_def split: sum.splits)
  show ?thesis unfolding r by (rule ghost_trim_chunks [OF y]) simp
qed

lemma instantaneous_phase_chunks:
  assumes "instantaneous_phase B (DaskArray x) kern preview = Inr r"
  shows "chunks r = chunks x"
proof -
  from assms obtain y ci where y: "create_array B (DaskArray x) (Some kern) None preview = Inr (y, ci)"
    and r: "r = trim_dask_array (da_map rad2deg (da_map (xp_angle B) (map_blocks (hilbert_cb B) y))) kern"
    by (auto simp: instantaneous_phase_def andthen_def Let_def split: sum.splits)
  show ?thesis unfolding r by (rule ghost_trim_chunks [OF y]) simp
qed

lemma instantaneous_frequency_chunks:
  assumes fd: "\<And>a b. first_derivative B a = Inr b \<Longrightarrow> chunks b = chunks a"
    and run: "instantaneous_frequency B (DaskArray x) sample_rate kern preview = Inr r"
    and c: "chunks x = (c0, c1, c2)"
  shows "chunks r = (c0, c1, grow c2 12)"
proof -
  from run obtain y ci ph pp where
    y: "create_array B (DaskArray x) (Some (1, 1, 25)) None preview = Inr (y, ci)"
    and ph: "instantaneous_phase B (DaskArray y) kern None = Inr ph"
    and pp: "first_derivative B (map_blocks (xp_unwrap B) (da_map deg2rad ph)) = Inr pp"
    and r: "chunks r = chunks pp"
    by (auto simp: instantaneous_frequency_def andthen_def Let_def split: sum.splits if_splits)
  have hw: "half_window (1, 1, 25) = (0, 0, 12)" by (simp add: half_window_def axes_map_def)
  have "chunks y = (grow c0 0, grow c1 0, grow c2 12)"
    by (rule create_array_dask_kernel [OF y c hw])
  moreover have "chunks ph = chunks y" by (rule instantaneous_phase_chunks [OF ph])
  moreover have "chunks pp = chunks ph" using fd [OF pp] by simp
  ultimately show ?thesis using r by simp
qed

section \<open>Proofs: trimming undoes ghosting\<close>

lemma sum_list_ge_member: "c \<in> set cs \<Longrightarrow> (c::nat) \<le> sum_list cs"
  by (induction cs) auto

lemma trim_windows:
  assumes "length p = sum_list cs + 2 * d"
  shows "trim_axis d (grow cs d) (windows d cs p) = take (sum_list cs) (drop d p)"
  using assms
proof (induction cs arbitrary: p)
  case Nil
  then show ?case by (simp add: trim_axis_def grow_def)
next
  case (Cons c cs)
  have l: "length (drop c p) = sum_list cs + 2 * d" using Cons.prems by simp
  have ih: "trim_axis d (grow cs d) (windows d cs (drop c p)) = take (sum_list cs) (drop d (drop c p))"
    by (rule Cons.IH [OF l])
  have lt: "length (take (c + 2 * d) p) = c + 2 * d" using Cons.prems by simp
  have sp: "split_by (grow (c # cs) d) (windows d (c # cs) p) =
        take (c + 2 * d) p # split_by (grow cs d) (windows d cs (drop c p))"
    using lt by (simp add: grow_def)
  have hd: "take (c + 2 * d - 2 * d) (drop d (take (c + 2 * d) p)) = take c (drop d p)"
    by (simp add: drop_take)
  have "trim_axis d (grow (c # cs) d) (windows d (c # cs) p) =
        take c (drop d p) @ trim_axis d (grow cs d) (windows d cs (drop c p))"
    unfolding trim_axis_def sp using hd lt by simp
  also have "\<dots> = take c (drop d p) @ take (sum_list cs) (drop c (drop d p))"
    by (simp add: ih add.commute)
  also have "\<dots> = take (c + sum_list cs) (drop d p)" by (simp add: take_add)
  finally show ?case by simp
qed

lemma trim_overlap_axis:
  assumes "fits d cs" and "sum_list cs = length xs"
  shows "trim_axis d (grow cs d) (overlap_axis d cs xs) = xs"
proof (cases cs)
  case Nil
  then show ?thesis using assms by (simp add: trim_axis_def grow_def overlap_axis_def)
next
  case (Cons c r)
  then have "d \<le> c" "c \<le> sum_list cs" using assms(1) by (simp_all add: fits_def)
  then have d: "d \<le> length xs" using assms(2) by simp
  let ?p = "rev (take d xs) @ xs @ rev (drop (length xs - d) xs)"
  have "length ?p = sum_list cs + 2 * d" using d assms(2) by simp
  from trim_windows [OF this] have "trim_axis d (grow cs d) (windows d cs ?p) =
      take (sum_list cs) (drop d ?p)" .
  also have "drop d ?p = xs @ rev (drop (length xs - d) xs)" using d by simp
  also have "take (sum_list cs) (xs @ rev (drop (length xs - d) xs)) = xs" using assms(2) by simp
  finally show ?thesis by (simp add: overlap_axis_def)
qed

lemma windows_map: "windows d cs (map g p) = map g (windows d cs p)"
  by (induction cs arbitrary: p) (simp_all add: take_map drop_map)

lemma overlap_axis_map: "overlap_axis d cs (map g xs) = map g (overlap_axis d cs xs)"
proof -
  have "rev (take d (map g xs)) @ map g xs @ rev (drop (length (map g xs) - d) (map g xs)) =
        map g (rev (take d xs) @ xs @ rev (drop (length xs - d) xs))"
    by (simp add: take_map drop_map rev_map)
  then show ?thesis unfolding overlap_axis_def by (simp only: windows_map)
qed

lemma trim_overlap:
  assumes "well_chunked x" and "overlap x (half_window kern) = Inr y"
  shows "trim_dask_array y kern = x"
proof -
  obtain c0 c1 c2 where c: "chunks x = (c0, c1, c2)" by (cases "chunks x") auto
  obtain d0 d1 d2 where d: "half_window kern = (d0, d1, d2)" by (cases "half_window kern") auto
  from assms(2) have f: "fits d0 c0" "fits d1 c1" "fits d2 c2"
    and y: "y = \<lparr>chunks = (grow c0 d0, grow c1 d1, grow c2 d2),
                  vals = overlap_axis d0 c0
                           (map (overlap_axis d1 c1) (map (map (overlap_axis d2 c2)) (vals x)))\<rparr>"
    by (auto simp: overlap_def c d split: if_splits)
  from assms(1) have w0: "length (vals x) = sum_list c0"
    and w1: "\<And>p. p \<in> set (vals x) \<Longrightarrow> length p = sum_list c1"
    and w2: "\<And>p t. p \<in> set (vals x) \<Longrightarrow> t \<in> set p \<Longrightarrow> length t = sum_list c2"
    by (auto simp: well_chunked_def c)
  let ?o2 = "overlap_axis d2 c2" and ?o1 = "overlap_axis d1 c1" and ?o0 = "overlap_axis d0 c0"
  let ?t2 = "trim_axis d2 (grow c2 d2)" and ?t1 = "trim_axis d1 (grow c1 d1)"
  let ?t0 = "trim_axis d0 (grow c0 d0)"
  have s2: "map (map ?t2) (?o0 (map ?o1 (map (map ?o2) (vals x)))) = ?o0 (map ?o1 (vals x))"
  proof -
    have "map (map ?t2) (?o0 (map ?o1 (map (map ?o2) (vals x)))) =
          ?o0 (map (map ?t2) (map ?o1 (map (map ?o2) (vals x))))"
      by (simp only: overlap_axis_map)
    also have "map (map ?t2) (map ?o1 (map (map ?o2) (vals x))) =
          map (\<lambda>p. map ?t2 (?o1 (map ?o2 p))) (vals x)" by simp
    also have "\<dots> = map (\<lambda>p. ?o1 (map ?t2 (map ?o2 p))) (vals x)"
      by (simp only: overlap_axis_map)
    also have "\<dots> = map (\<lambda>p. ?o1 p) (vals x)"
    proof (rule map_cong [OF refl])
      fix p assume p: "p \<in> set (vals x)"
      have "map ?t2 (map ?o2 p) = map (\<lambda>t. ?t2 (?o2 t)) p" by simp
      also have "\<dots> = map (\<lambda>t. t) p"
        by (rule map_cong [OF refl]) (simp add: trim_overlap_axis [OF f(3)] w2 [OF p])
      finally show "?o1 (map ?t2 (map ?o2 p)) = ?o1 p" by simp
    qed
    finally show ?thesis by simp
  qed
  have s1: "map ?t1 (?o0 (map ?o1 (vals x))) = ?o0 (vals x)"
  proof -
    have "map ?t1 (?o0 (map ?o1 (vals x))) = ?o0 (map ?t1 (map ?o1 (vals x)))"
      by (simp only: overlap_axis_map)
    also have "map ?t1 (map ?o1 (vals x)) = map (\<lambda>p. ?t1 (?o1 p)) (vals x)" by simp
    also have "\<dots> = map (\<lambda>p. p) (vals x)"
      by (rule map_cong [OF refl]) (simp add: trim_overlap_axis [OF f(2)] w1)
    finally show ?thesis by simp
  qed
  have s0: "?t0 (?o0 (vals x)) = vals x"
    by (rule trim_overlap_axis [OF f(1)]) (simp add: w0)
  have "vals (trim_dask_array y kern) =
        ?t0 (map ?t1 (map (map ?t2) (?o0 (map ?o1 (map (map ?o2) (vals x))))))"
    by (simp add: trim_dask_array_def y d del: map_map)
  also have "\<dots> = vals x" by (simp only: s2 s1 s0)
  finally have v: "vals (trim_dask_array y kern) = vals x" .
  have "chunks (trim_dask_array y kern) = chunks x"
    by (simp add: trim_dask_array_def y d c shrink_grow)
  then show ?thesis using v by simp
qed

section \<open>The take-companion and signed-peak closures\<close>





lemma segments_frequency_eq_phase: "response_frequency_segments = response_phase_segments"
  by (intro ext) (simp add: response_frequency_segments_with response_phase_segments_with)

lemma segments_amplitude_eq_phase: "response_amplitude_segments = response_phase_segments"
  by (intro ext) (simp add: response_amplitude_segments_with response_phase_segments_with)

lemma trace_frequency_eq_phase: "response_frequency_trace = response_phase_trace"
  by (intro ext)
    (simp add: response_frequency_trace_def response_phase_trace_def segments_frequency_eq_phase
       split: sum.splits)

lemma trace_amplitude_eq_phase: "response_amplitude_trace = response_phase_trace"
  by (intro ext)
    (simp add: response_amplitude_trace_def response_phase_trace_def segments_amplitude_eq_phase
       split: sum.splits)

lemma operation_frequency_eq_phase: "response_frequency_operation = response_phase_operation"
  by (intro ext)
    (simp add: response_frequency_operation_def response_phase_operation_def
      trace_frequency_eq_phase)

lemma operation_amplitude_eq_phase: "response_amplitude_operation = response_phase_operation"
  by (intro ext)
    (simp add: response_amplitude_operation_def response_phase_operation_def
      trace_amplitude_eq_phase)

text \<open>
  C10. The closures \<^verbatim>\<open>operation\<close> of \<^verbatim>\<open>response_phase\<close>,
  \<^verbatim>\<open>response_frequency\<close> and \<^verbatim>\<open>response_amplitude\<close> are the same function: for
  all reference, companion and segment-id blocks (of the same shape or not) the three return
  identical results.
\<close>

theorem take_companion_closures_equal:
  "response_phase_operation chunk1 chunk2 chunk3 =
     response_frequency_operation chunk1 chunk2 chunk3 \<and>
   response_frequency_operation chunk1 chunk2 chunk3 =
     response_amplitude_operation chunk1 chunk2 chunk3 \<and>
   response_phase_operation = response_frequency_operation \<and>
   response_frequency_operation = response_amplitude_operation"
proof -
  have pf: "response_phase_operation = response_frequency_operation"
    by (rule operation_frequency_eq_phase [symmetric])
  have fa: "response_frequency_operation = response_amplitude_operation"
    using operation_frequency_eq_phase operation_amplitude_eq_phase by (rule trans [OF _ sym])
  show ?thesis using pf fa by simp
qed








section \<open>The segments of a trace\<close>

lemma length_cumsum_from [simp]: "length (cumsum_from acc ind) = length ind"
  by (induction ind arbitrary: acc) simp_all








section \<open>Errors of the closures\<close>











section \<open>Proofs: the elements of mapped blocks\<close>









section \<open>The attribute functions on chunked arrays\<close>


lemma vals_da_map [simp]: "vals (da_map f x) = map (map (map f)) (vals x)"
  by (simp add: da_map_def)





lemma nan_to_zero_keeps: "\<not> isnan x \<Longrightarrow> nan_to_zero x = x"
  by (simp add: nan_to_zero_def)







text \<open>
  C8. For every input volume, \<^verbatim>\<open>cosine_instantaneous_phase\<close> returns the angle, in
  degrees, of the angle, in degrees, of the analytic signal: the angle is taken twice, the
  second time of the instantaneous phase, which is real and already in degrees. The
  analytic signal is what \<^verbatim>\<open>hilbert\<close> returns for the chunked input.
\<close>

theorem cosine_instantaneous_phase_twice_angle:
  "cosine_instantaneous_phase B darray kern preview =
     andthen (create_array B darray None None preview)
       (\<lambda>(darray, chunks_init).
     andthen (hilbert B (DaskArray darray) kern None)
       (\<lambda>analytic.
          Inr (da_map rad2deg (da_map (angle_of_real B)
                 (da_map rad2deg (da_map (xp_angle B) analytic))))))"
proof (cases "create_array B darray None None preview")
  case (Inl e)
  then show ?thesis by (simp add: cosine_instantaneous_phase_def andthen_def)
next
  case (Inr p)
  obtain x ci where p: "p = (x, ci)" by (cases p) auto
  show ?thesis
  proof (cases "create_array B (DaskArray x) (Some kern) None None")
    case (Inl e)
    then show ?thesis using Inr p
      by (simp add: cosine_instantaneous_phase_def instantaneous_phase_def hilbert_def andthen_def)
  next
    case g: (Inr g)
    obtain y cy where gy: "g = (y, cy)" by (cases g) auto
    show ?thesis using Inr p g gy
      by (simp add: cosine_instantaneous_phase_def instantaneous_phase_def hilbert_def
          andthen_def trim_da_map)
  qed
qed



text \<open>
  C1. \<^verbatim>\<open>instantaneous_frequency\<close> does not keep the shape of its input. Its first
  call of \<^verbatim>\<open>create_array\<close> ghosts the array with the kernel \<^verbatim>\<open>(1,1,25)\<close>, and the
  ghost zone is never trimmed: for a chunked input and a derivative that keeps the chunks,
  the result has the chunks of the input with every block of the last axis enlarged by 24,
  so its last axis is longer by 24 times the number of blocks.
\<close>

theorem instantaneous_frequency_enlarges_shape:
  assumes "\<forall>a b. first_derivative B a = Inr b \<longrightarrow> chunks b = chunks a"
    and "instantaneous_frequency B (DaskArray x) sample_rate kern preview = Inr r"
    and "shape x = (n0, n1, n2)"
  shows "shape r = (n0, n1, n2 + 24 * length (snd (snd (chunks x))))"
proof -
  obtain c0 c1 c2 where c: "chunks x = (c0, c1, c2)" by (cases "chunks x") auto
  have "chunks r = (c0, c1, grow c2 12)"
    by (rule instantaneous_frequency_chunks [OF _ assms(2) c]) (use assms(1) in blast)
  then show ?thesis using assms(3) c
    by (simp add: shape_def axes_map_def sum_list_grow)
qed

section \<open>Examples on blocks\<close>

lemmas closure_eval =
  response_phase_operation_def response_phase_trace_def
  response_frequency_operation_def response_frequency_trace_def
  response_amplitude_operation_def response_amplitude_trace_def
  apparent_polarity_operation_def apparent_polarity_trace_def
  get_trace_def get_item_def unique_def where_eq_def take_idx_def put_idx_def argmax_def
  same_shape_def covers_def upt_rec

lemmas array_eval =
  create_array_def andthen_def overlap_def half_window_def axes_map_def fits_def grow_def
  overlap_axis_def map_blocks_def map_blocks3_def blocks_def join_blocks_def cat1_def cat2_def
  da_map_def da_map2_def trim_dask_array_def shrink_def trim_axis_def shape_def
  from_array_def np_shape_def blockdims_def cumsum_def local_events_def local_events_trace_def
  example_backend_def real_analytic_def spec_first_derivative_def first_derivative_trace_def


text \<open>
  The three closures on one block of three samples in one segment.
\<close>

theorem take_companion_closures_equal_witness:
  "response_phase_operation [[[Fin 1, Fin 4, Fin 2]]] [[[Fin 7, Fin 8, Fin 9]]] [[[0, 0, 0]]] =
     response_amplitude_operation [[[Fin 1, Fin 4, Fin 2]]] [[[Fin 7, Fin 8, Fin 9]]] [[[0, 0, 0]]] \<and>
   response_frequency_operation [[[Fin 1, Fin 4, Fin 2]]] [[[Fin 7, Fin 8, Fin 9]]] [[[0, 0, 0]]] =
     Inr [[[Fin 8, Fin 8, Fin 8]]]"
  using take_companion_closures_equal
    [of "[[[Fin 1, Fin 4, Fin 2]]]" "[[[Fin 7, Fin 8, Fin 9]]]" "[[[0, 0, 0]]]"]
  by (simp add: closure_eval)









section \<open>Examples on chunked arrays\<close>





text \<open>
  A trace of two zeros, whose phase and whose angle of the phase are zero.
\<close>

theorem cosine_instantaneous_phase_twice_angle_witness:
  "cosine_instantaneous_phase example_backend (NumpyArray 4 [[[Fin 0, Fin 0]]]) (1, 1, 3) None =
     Inr \<lparr>chunks = ([1], [1], [2]), vals = [[[Fin 0, Fin 0]]]\<rparr>"
proof -
  have h: "hilbert example_backend
       (DaskArray \<lparr>chunks = ([1], [1], [2]), vals = [[[Fin 0, Fin 0]]]\<rparr>) (1, 1, 3) None =
     Inr \<lparr>chunks = ([1], [1], [2]), vals = [[[(Fin 0, Fin 0), (Fin 0, Fin 0)]]]\<rparr>"
    by (simp add: hilbert_def array_eval)
  have c: "create_array example_backend (NumpyArray 4 [[[Fin 0, Fin 0]]]) None None None =
     Inr (\<lparr>chunks = ([1], [1], [2]), vals = [[[Fin 0, Fin 0]]]\<rparr>, ([1], [1], [2]))"
    by (simp add: array_eval)
  have t: "cosine_instantaneous_phase example_backend (NumpyArray 4 [[[Fin 0, Fin 0]]]) (1, 1, 3) None =
     Inr (da_map rad2deg (da_map (angle_of_real example_backend)
            (da_map rad2deg (da_map (xp_angle example_backend)
               \<lparr>chunks = ([1], [1], [2]), vals = [[[(Fin 0, Fin 0), (Fin 0, Fin 0)]]]\<rparr>))))"
    using cosine_instantaneous_phase_twice_angle
      [of example_backend "NumpyArray 4 [[[Fin 0, Fin 0]]]" "(1, 1, 3)" None]
    by (simp only: c h andthen_def sum.case prod.case)
  show ?thesis
    unfolding t
    by (simp add: da_map_def rad2deg_def angle_of_real_def example_backend_def
        Arg_zero flip: zero_complex.code)
qed

text \<open>
  A chunked volume of shape \<open>(1,1,12)\<close> in one block, sample rate 4 and the default kernel:
  the result has shape \<open>(1,1,36)\<close>.
\<close>

theorem instantaneous_frequency_enlarges_shape_witness:
  "shape \<lparr>chunks = ([1], [1], [12]),
          vals = [[[Fin 0, Fin 0, Fin 0, Fin 0, Fin 0, Fin 0, Fin 0, Fin 0, Fin 0, Fin 0, Fin 0,
                    Fin 0]]]\<rparr> = (1, 1, 12) \<and>
   (\<exists>r. instantaneous_frequency example_backend
          (DaskArray \<lparr>chunks = ([1], [1], [12]),
             vals = [[[Fin 0, Fin 0, Fin 0, Fin 0, Fin 0, Fin 0, Fin 0, Fin 0, Fin 0, Fin 0, Fin 0,
                    Fin 0]]]\<rparr>) 4 (1, 1, 25) None = Inr r \<and> shape r = (1, 1, 36))"
proof -
  let ?x = "\<lparr>chunks = ([1], [1], [12]),
          vals = [[[Fin 0, Fin 0, Fin 0, Fin 0, Fin 0, Fin 0, Fin 0, Fin 0, Fin 0, Fin 0, Fin 0,
                    Fin (0::real)]]]\<rparr>"
  have fd: "\<forall>a b. first_derivative example_backend a = Inr b \<longrightarrow> chunks b = chunks a"
    by (auto simp: example_backend_def spec_first_derivative_def)
  have sh: "shape ?x = (1, 1, 12)" by (simp add: shape_def axes_map_def)
  have "\<exists>r. instantaneous_frequency example_backend (DaskArray ?x) 4 (1, 1, 25) None = Inr r"
    by (simp add: instantaneous_frequency_def instantaneous_phase_def create_array_def andthen_def
        overlap_def half_window_def axes_map_def fits_def grow_def example_backend_def
        spec_first_derivative_def)
  then obtain r where run: "instantaneous_frequency example_backend (DaskArray ?x) 4 (1, 1, 25) None = Inr r"
    by blast
  from instantaneous_frequency_enlarges_shape [OF fd run sh] have "shape r = (1, 1, 36)" by simp
  then show ?thesis using sh run by blast
qed

end
